theory Spec2Isabelle
  imports Main "HOL-Library.Multiset"
begin

section \<open>The gallery backend of \<^verbatim>\<open>index.js\<close>\<close>

text \<open>
  The program is one Express application: a login route, a public listing route and three
  admin-gated routes (upload, update title, delete) over two module-level arrays
  (\<^verbatim>\<open>users\<close>, \<^verbatim>\<open>images\<close>) and a flag \<^verbatim>\<open>mongoConnected\<close> that chooses, at every
  use, between those arrays and the Mongoose models.

  Conventions of the embedding:
  \<^item> a JavaScript value that may be \<^verbatim>\<open>undefined\<close> is an \<open>option\<close> (\<open>None\<close> is
    \<^verbatim>\<open>undefined\<close>);
  \<^item> every handler is one function from the state before to the response and the state
    after: requests are handled one at a time, and two handlers are not interleaved at
    their awaits;
  \<^item> what the collaborators outside the file answer during one request (the clock, the
    database driver, Cloudinary, the file system) is an input of the handler, the record
    \<open>extern\<close>; a thrown error is a branch of the model;
  \<^item> bcrypt and the token codec are parameters (the record \<open>prims\<close>).
\<close>

subsection \<open>Data\<close>

type_synonym millis = nat

text \<open>A user's identifier: the number \<^verbatim>\<open>id\<close> of an in-memory user, or the
  \<^verbatim>\<open>_id\<close> of a stored document.\<close>

datatype ident = NumId nat | ObjectId string

record user =
  u_id :: ident
  u_email :: string
  u_password :: string
  u_isAdmin :: bool

text \<open>An image record. \<open>title\<close> is optional because line 278 stores whatever the request
  body holds; \<open>createdAt\<close> is the instant in milliseconds (the ISO string of line 247 is
  read back by \<^verbatim>\<open>new Date\<close> on line 204 to the same instant).\<close>

record image =
  image_id :: string
  title :: "string option"
  url :: string
  cloudinaryId :: string
  createdAt :: millis

text \<open>The decoded token: the payload of line 185 with the two time stamps (in seconds)
  that \<^verbatim>\<open>jwt.sign\<close> adds for \<^verbatim>\<open>expiresIn\<close>.\<close>

record claims =
  userId :: ident
  c_email :: string
  c_isAdmin :: bool
  iat :: nat
  expiry :: nat

record prims =
  bcrypt_hash :: "string \<Rightarrow> string"
  bcrypt_compare :: "string \<Rightarrow> string \<Rightarrow> bool"
  jwt_encode :: "claims \<Rightarrow> string \<Rightarrow> string"
  jwt_decode :: "string \<Rightarrow> string \<Rightarrow> claims option"

record env =
  JWT_SECRET :: "string option"

datatype effect = CloudUploaded string | Unlinked string | CloudDestroyed string

text \<open>The process state: the three module-level variables of lines 27-29, the two
  collections behind the Mongoose models, and the log of effects on the remote media host
  and on the upload directory.\<close>

record state =
  users :: "user list"
  images :: "image list"
  mongoConnected :: bool
  db_users :: "user list"
  db_images :: "image list"
  effects :: "effect list"

text \<open>What the outside answers during one request: \<open>clock\<close> when the request arrives,
  \<open>date_now\<close> for \<^verbatim>\<open>Date.now()\<close> on line 243, \<open>new_date\<close> for the creation stamp
  (\<^verbatim>\<open>new Date()\<close> on line 247, Mongoose's time stamp in persistent mode); an error
  message where a call throws; the identifier the driver gives a new document; and whether
  the installed Mongoose drops an \<^verbatim>\<open>undefined\<close> key from an update or writes null.\<close>

record extern =
  clock :: millis
  date_now :: millis
  new_date :: millis
  db_error :: "string option"
  cloud_upload :: "string + (string \<times> string)"
  unlink_error :: "string option"
  cloud_destroy_error :: "string option"
  fresh_oid :: string
  omit_undefined :: bool

datatype body =
    Message string
  | Failure string string
  | TokenBody string bool
  | ImageList "image list"
  | ImageDoc image
  | DefaultErrorPage string

record response =
  status :: nat
  body :: body

definition json :: "nat \<Rightarrow> body \<Rightarrow> response" where
  "json st b = \<lparr>status = st, body = b\<rparr>"

subsection \<open>JavaScript helpers\<close>

definition truthy :: "string option \<Rightarrow> bool" where
  "truthy v = (case v of None \<Rightarrow> False | Some s \<Rightarrow> s \<noteq> [])"

text \<open>\<^verbatim>\<open>a || b\<close> on strings.\<close>

definition or_default :: "string option \<Rightarrow> string \<Rightarrow> string" where
  "or_default v d = (case v of None \<Rightarrow> d | Some s \<Rightarrow> if s = [] then d else s)"

text \<open>\<^verbatim>\<open>s.split(' ')\<close>: never empty, an empty piece between two adjacent spaces.\<close>

fun split_space :: "string \<Rightarrow> string list" where
  "split_space [] = [[]]"
| "split_space (c # cs) =
     (if c = CHR '' '' then [] # split_space cs
      else (case split_space cs of
              [] \<Rightarrow> [[c]]
            | w # ws \<Rightarrow> (c # w) # ws))"

text \<open>Line 144: \<^verbatim>\<open>authHeader && authHeader.split(' ')[1]\<close>. An empty header is itself
  the (falsy) result; an index past the end reads \<^verbatim>\<open>undefined\<close>.\<close>

definition bearer :: "string option \<Rightarrow> string option" where
  "bearer authHeader =
     (case authHeader of
        None \<Rightarrow> None
      | Some h \<Rightarrow>
          if h = [] then Some []
          else (let parts = split_space h
                in if 1 < length parts then Some (parts ! 1) else None))"

definition digit :: "nat \<Rightarrow> char" where
  "digit n = ''0123456789'' ! n"

text \<open>\<^verbatim>\<open>Number.prototype.toString\<close> on a non-negative integer.\<close>

fun toString :: "nat \<Rightarrow> string" where
  "toString n = (if n < 10 then [digit n] else toString (n div 10) @ [digit (n mod 10)])"

declare toString.simps [simp del]

text \<open>\<^verbatim>\<open>Array.prototype.findIndex\<close>, with \<open>None\<close> for -1.\<close>

fun findIndex :: "('a \<Rightarrow> bool) \<Rightarrow> 'a list \<Rightarrow> nat option" where
  "findIndex p [] = None"
| "findIndex p (x # xs) = (if p x then Some 0 else map_option Suc (findIndex p xs))"

text \<open>\<^verbatim>\<open>xs.splice(i, 1)\<close>.\<close>

definition splice1 :: "nat \<Rightarrow> 'a list \<Rightarrow> 'a list" where
  "splice1 i xs = take i xs @ drop (Suc i) xs"

text \<open>Lines 201 and 204: the sort by \<^verbatim>\<open>createdAt\<close>, larger instants first. The sort
  of line 204 is stable; the database's order among equal stamps (line 201) is taken to be
  the stored order as well.\<close>

definition newest_first :: "image list \<Rightarrow> image list" where
  "newest_first xs = sort_key (\<lambda>i. - int (createdAt i)) xs"

subsection \<open>The token library\<close>

text \<open>\<^verbatim>\<open>jwt.sign(payload, secret, {expiresIn: '24h'})\<close>: throws when the secret is
  missing or empty; otherwise stamps the payload with the issuing second and an expiry
  86400 seconds later, and encodes it under the secret.\<close>

definition jwt_sign :: "prims \<Rightarrow> ident \<times> string \<times> bool \<Rightarrow> string option \<Rightarrow> millis \<Rightarrow> string + string" where
  "jwt_sign P payload secret now =
     (case payload of (uid, em, adm) \<Rightarrow>
        (case secret of
           None \<Rightarrow> Inl ''secretOrPrivateKey must have a value''
         | Some k \<Rightarrow>
             if k = [] then Inl ''secretOrPrivateKey must have a value''
             else Inr (jwt_encode P
                        \<lparr>userId = uid, c_email = em, c_isAdmin = adm,
                         iat = now div 1000, expiry = now div 1000 + 86400\<rparr> k)))"

text \<open>\<^verbatim>\<open>jwt.verify(token, secret)\<close>: an error (\<open>None\<close>) when the token does not decode
  under the secret or when the current second has reached its expiry.\<close>

definition jwt_verify :: "prims \<Rightarrow> string \<Rightarrow> string \<Rightarrow> millis \<Rightarrow> claims option" where
  "jwt_verify P token secret now =
     (case jwt_decode P token secret of
        None \<Rightarrow> None
      | Some u \<Rightarrow> if expiry u \<le> now div 1000 then None else Some u)"

subsection \<open>Start-up\<close>

definition initial :: "user list \<Rightarrow> image list \<Rightarrow> state" where
  "initial dbu dbi =
     \<lparr>users = [], images = [], mongoConnected = False,
      db_users = dbu, db_images = dbi, effects = []\<rparr>"

text \<open>Lines 94-109. The function is started twice on a successful connection (lines 38
  and 138); the model runs it once.\<close>

definition initializeUsers :: "prims \<Rightarrow> string \<Rightarrow> state \<Rightarrow> state" where
  "initializeUsers P oid s =
     (case find (\<lambda>u. u_email u = ''admin@gmail.com'') (db_users s) of
        Some u \<Rightarrow> s
      | None \<Rightarrow>
          s\<lparr>db_users := db_users s @
               [\<lparr>u_id = ObjectId oid, u_email = ''admin@gmail.com'',
                 u_password = bcrypt_hash P ''admin123'', u_isAdmin = True\<rparr>]\<rparr>)"

definition initializeInMemoryUsers :: "prims \<Rightarrow> state \<Rightarrow> state" where
  "initializeInMemoryUsers P s =
     s\<lparr>users :=
         [\<lparr>u_id = NumId 1, u_email = ''admin@gmail.com'',
           u_password = bcrypt_hash P ''admin123'', u_isAdmin = True\<rparr>,
          \<lparr>u_id = NumId 2, u_email = ''user@gmail.com'',
           u_password = bcrypt_hash P ''password123'', u_isAdmin = False\<rparr>]\<rparr>"

subsection \<open>The auth gate\<close>

definition authenticateToken :: "prims \<Rightarrow> env \<Rightarrow> millis \<Rightarrow> string option \<Rightarrow> response + claims" where
  "authenticateToken P E now authHeader =
     (case bearer authHeader of
        None \<Rightarrow> Inl (json 401 (Message ''Access denied''))
      | Some token \<Rightarrow>
          if token = [] then Inl (json 401 (Message ''Access denied''))
          else (case jwt_verify P token (or_default (JWT_SECRET E) ''your_jwt_secret'') now of
                  None \<Rightarrow> Inl (json 403 (Message ''Invalid token''))
                | Some u \<Rightarrow> Inr u))"

definition isAdmin :: "claims \<Rightarrow> response + claims" where
  "isAdmin u =
     (if \<not> c_isAdmin u then Inl (json 403 (Message ''Admin access required'')) else Inr u)"

text \<open>The two middlewares in the order the three admin routes mount them.\<close>

definition admin_gate :: "prims \<Rightarrow> env \<Rightarrow> millis \<Rightarrow> string option \<Rightarrow> response + claims" where
  "admin_gate P E now authHeader =
     (case authenticateToken P E now authHeader of
        Inl r \<Rightarrow> Inl r
      | Inr u \<Rightarrow> isAdmin u)"

subsection \<open>Login\<close>

text \<open>Lines 169-173: the lookup by email in whichever store the flag selects.\<close>

definition findUser :: "state \<Rightarrow> extern \<Rightarrow> string option \<Rightarrow> string + user option" where
  "findUser s x em =
     (if mongoConnected s
      then (case db_error x of
              Some m \<Rightarrow> Inl m
            | None \<Rightarrow> Inr (find (\<lambda>u. Some (u_email u) = em) (db_users s)))
      else Inr (find (\<lambda>u. Some (u_email u) = em) (users s)))"

text \<open>Lines 164-195. \<^verbatim>\<open>bcrypt.compare\<close> rejects (and the handler answers 500) when the
  body has no password.\<close>

definition login :: "prims \<Rightarrow> env \<Rightarrow> state \<Rightarrow> extern \<Rightarrow> string option \<Rightarrow> string option \<Rightarrow> response" where
  "login P E s x em pw =
     (case findUser s x em of
        Inl m \<Rightarrow> json 500 (Message ''Server error'')
      | Inr None \<Rightarrow> json 401 (Message ''Invalid credentials'')
      | Inr (Some u) \<Rightarrow>
          (case pw of
             None \<Rightarrow> json 500 (Message ''Server error'')
           | Some p \<Rightarrow>
               if \<not> bcrypt_compare P p (u_password u)
               then json 401 (Message ''Invalid credentials'')
               else (case jwt_sign P (u_id u, u_email u, u_isAdmin u) (JWT_SECRET E) (clock x) of
                       Inl m \<Rightarrow> json 500 (Message ''Server error'')
                     | Inr token \<Rightarrow> json 200 (TokenBody token (u_isAdmin u)))))"

subsection \<open>Listing\<close>

text \<open>Lines 198-210. \<^verbatim>\<open>images.sort\<close> sorts the shared array in place.\<close>

definition get_images :: "state \<Rightarrow> extern \<Rightarrow> response \<times> state" where
  "get_images s x =
     (if mongoConnected s
      then (case db_error x of
              Some m \<Rightarrow> (json 500 (Failure ''Error fetching images'' m), s)
            | None \<Rightarrow> (json 200 (ImageList (newest_first (db_images s))), s))
      else (let sorted = newest_first (images s)
            in (json 200 (ImageList sorted), s\<lparr>images := sorted\<rparr>)))"

subsection \<open>Upload\<close>

text \<open>What \<^verbatim>\<open>upload.single('file')\<close> hands on: an error of the size limit or the file
  filter, no file, or the path of the staged file.\<close>

datatype multer = Rejected string | NoFile | File string

text \<open>\<^verbatim>\<open>newImage.save()\<close>: the schema's three required strings are validated, then the
  document is written with the driver's identifier and the creation stamp.\<close>

definition save_image :: "state \<Rightarrow> extern \<Rightarrow> string \<Rightarrow> string \<Rightarrow> string \<Rightarrow> string + image \<times> state" where
  "save_image s x ttl u cid =
     (if ttl = [] \<or> u = [] \<or> cid = [] then Inl ''Image validation failed''
      else (case db_error x of
              Some m \<Rightarrow> Inl m
            | None \<Rightarrow>
                (let doc = \<lparr>image_id = fresh_oid x, title = Some ttl, url = u,
                            cloudinaryId = cid, createdAt = new_date x\<rparr>
                 in Inr (doc, s\<lparr>db_images := db_images s @ [doc]\<rparr>))))"

text \<open>Lines 214-256, the handler behind the gate.\<close>

definition upload_handler :: "state \<Rightarrow> extern \<Rightarrow> string option \<Rightarrow> string option \<Rightarrow> response \<times> state" where
  "upload_handler s x ttl file =
     (case file of
        None \<Rightarrow> (json 400 (Message ''No file uploaded''), s)
      | Some path \<Rightarrow>
          (case cloud_upload x of
             Inl m \<Rightarrow> (json 500 (Failure ''Error uploading image'' m), s)
           | Inr (secure_url, public_id) \<Rightarrow>
               (let s1 = s\<lparr>effects := effects s @ [CloudUploaded public_id]\<rparr>
                in case unlink_error x of
                     Some m \<Rightarrow> (json 500 (Failure ''Error uploading image'' m), s1)
                   | None \<Rightarrow>
                       (let s2 = s1\<lparr>effects := effects s1 @ [Unlinked path]\<rparr>
                        in if mongoConnected s
                           then (case save_image s2 x (or_default ttl ''Untitled'') secure_url public_id of
                                   Inl m \<Rightarrow> (json 500 (Failure ''Error uploading image'' m), s2)
                                 | Inr (doc, s3) \<Rightarrow> (json 200 (ImageDoc doc), s3))
                           else (let newImage =
                                       \<lparr>image_id = toString (date_now x),
                                        title = Some (or_default ttl ''Untitled''),
                                        url = secure_url, cloudinaryId = public_id,
                                        createdAt = new_date x\<rparr>
                                 in (json 200 (ImageDoc newImage),
                                     s2\<lparr>images := images s2 @ [newImage]\<rparr>))))))"

text \<open>Line 213: the gate, then multer, then the handler. An error of multer is answered by
  the framework's default error handler.\<close>

definition upload_route ::
  "prims \<Rightarrow> env \<Rightarrow> state \<Rightarrow> extern \<Rightarrow> string option \<Rightarrow> string option \<Rightarrow> multer \<Rightarrow> response \<times> state" where
  "upload_route P E s x authHeader ttl m =
     (case admin_gate P E (clock x) authHeader of
        Inl r \<Rightarrow> (r, s)
      | Inr u \<Rightarrow>
          (case m of
             Rejected msg \<Rightarrow> (json 500 (DefaultErrorPage msg), s)
           | NoFile \<Rightarrow> upload_handler s x ttl None
           | File path \<Rightarrow> upload_handler s x ttl (Some path)))"

subsection \<open>Update title\<close>

text \<open>\<^verbatim>\<open>Image.findByIdAndUpdate(id, {title}, {new: true})\<close>: no validation on update;
  an \<^verbatim>\<open>undefined\<close> title is dropped from the update or written as null, as the
  installed version does.\<close>

definition db_update_title :: "extern \<Rightarrow> string option \<Rightarrow> image \<Rightarrow> image" where
  "db_update_title x ttl doc =
     (case ttl of
        None \<Rightarrow> if omit_undefined x then doc else doc\<lparr>title := None\<rparr>
      | Some t \<Rightarrow> doc\<lparr>title := Some t\<rparr>)"

text \<open>Lines 261-284.\<close>

definition update_handler :: "state \<Rightarrow> extern \<Rightarrow> string \<Rightarrow> string option \<Rightarrow> response \<times> state" where
  "update_handler s x ident ttl =
     (if mongoConnected s
      then (case db_error x of
              Some m \<Rightarrow> (json 500 (Failure ''Error updating image'' m), s)
            | None \<Rightarrow>
                (case findIndex (\<lambda>img. image_id img = ident) (db_images s) of
                   None \<Rightarrow> (json 404 (Message ''Image not found''), s)
                 | Some i \<Rightarrow>
                     (let updatedImage = db_update_title x ttl (db_images s ! i)
                      in (json 200 (ImageDoc updatedImage),
                          s\<lparr>db_images := (db_images s)[i := updatedImage]\<rparr>))))
      else (case findIndex (\<lambda>img. image_id img = ident) (images s) of
              None \<Rightarrow> (json 404 (Message ''Image not found''), s)
            | Some imageIndex \<Rightarrow>
                (let updated = (images s ! imageIndex)\<lparr>title := ttl\<rparr>
                 in (json 200 (ImageDoc updated),
                     s\<lparr>images := (images s)[imageIndex := updated]\<rparr>))))"

definition update_route ::
  "prims \<Rightarrow> env \<Rightarrow> state \<Rightarrow> extern \<Rightarrow> string option \<Rightarrow> string \<Rightarrow> string option \<Rightarrow> response \<times> state" where
  "update_route P E s x authHeader ident ttl =
     (case admin_gate P E (clock x) authHeader of
        Inl r \<Rightarrow> (r, s)
      | Inr u \<Rightarrow> update_handler s x ident ttl)"

subsection \<open>Delete\<close>

text \<open>Lines 298-300 and 311-313: the remote object is destroyed only when the record
  names one; a failure there is thrown before the local record is removed.\<close>

definition destroy_remote :: "state \<Rightarrow> extern \<Rightarrow> image \<Rightarrow> string + state" where
  "destroy_remote s x img =
     (if cloudinaryId img = [] then Inr s
      else (case cloud_destroy_error x of
              Some m \<Rightarrow> Inl m
            | None \<Rightarrow> Inr (s\<lparr>effects := effects s @ [CloudDestroyed (cloudinaryId img)]\<rparr>)))"

text \<open>Lines 289-323.\<close>

definition delete_handler :: "state \<Rightarrow> extern \<Rightarrow> string \<Rightarrow> response \<times> state" where
  "delete_handler s x ident =
     (if mongoConnected s
      then (case db_error x of
              Some m \<Rightarrow> (json 500 (Failure ''Error deleting image'' m), s)
            | None \<Rightarrow>
                (case findIndex (\<lambda>img. image_id img = ident) (db_images s) of
                   None \<Rightarrow> (json 404 (Message ''Image not found''), s)
                 | Some i \<Rightarrow>
                     (case destroy_remote s x (db_images s ! i) of
                        Inl m \<Rightarrow> (json 500 (Failure ''Error deleting image'' m), s)
                      | Inr s1 \<Rightarrow>
                          (json 200 (Message ''Image deleted successfully''),
                           s1\<lparr>db_images := splice1 i (db_images s1)\<rparr>))))
      else (case findIndex (\<lambda>img. image_id img = ident) (images s) of
              None \<Rightarrow> (json 404 (Message ''Image not found''), s)
            | Some imageIndex \<Rightarrow>
                (case destroy_remote s x (images s ! imageIndex) of
                   Inl m \<Rightarrow> (json 500 (Failure ''Error deleting image'' m), s)
                 | Inr s1 \<Rightarrow>
                     (json 200 (Message ''Image deleted successfully''),
                      s1\<lparr>images := splice1 imageIndex (images s1)\<rparr>))))"

definition delete_route ::
  "prims \<Rightarrow> env \<Rightarrow> state \<Rightarrow> extern \<Rightarrow> string option \<Rightarrow> string \<Rightarrow> response \<times> state" where
  "delete_route P E s x authHeader ident =
     (case admin_gate P E (clock x) authHeader of
        Inl r \<Rightarrow> (r, s)
      | Inr u \<Rightarrow> delete_handler s x ident)"

subsection \<open>The process\<close>

datatype request =
    Login "string option" "string option"
  | GetImages
  | Upload "string option" "string option" multer
  | Update "string option" string "string option"
  | Delete "string option" string

fun handle :: "prims \<Rightarrow> env \<Rightarrow> state \<Rightarrow> extern \<Rightarrow> request \<Rightarrow> response \<times> state" where
  "handle P E s x (Login em pw) = (login P E s x em pw, s)"
| "handle P E s x GetImages = get_images s x"
| "handle P E s x (Upload h ttl m) = upload_route P E s x h ttl m"
| "handle P E s x (Update h ident ttl) = update_route P E s x h ident ttl"
| "handle P E s x (Delete h ident) = delete_route P E s x h ident"

text \<open>What happens to the process after \<^verbatim>\<open>app.listen\<close>: the connection promise of line
  31 resolves (lines 35-39) or rejects (lines 40-44), or a request is handled. The server
  listens from the moment the module is loaded, so requests and the outcome of the
  connection come in any order.\<close>

datatype event =
    MongoConnected string
  | MongoConnectionError
  | Incoming request extern

fun step :: "prims \<Rightarrow> env \<Rightarrow> state \<Rightarrow> event \<Rightarrow> response option \<times> state" where
  "step P E s (MongoConnected oid) = (None, initializeUsers P oid (s\<lparr>mongoConnected := True\<rparr>))"
| "step P E s MongoConnectionError = (None, initializeInMemoryUsers P s)"
| "step P E s (Incoming req x) = (case handle P E s x req of (r, s') \<Rightarrow> (Some r, s'))"

text \<open>A run: the responses in order, and the final state.\<close>

fun run :: "prims \<Rightarrow> env \<Rightarrow> state \<Rightarrow> event list \<Rightarrow> response list \<times> state" where
  "run P E s [] = ([], s)"
| "run P E s (e # es) =
     (case step P E s e of
        (r, s') \<Rightarrow> (case run P E s' es of
                      (rs, s'') \<Rightarrow> ((case r of None \<Rightarrow> rs | Some a \<Rightarrow> a # rs), s'')))"

text \<open>The store a request is served from.\<close>

definition active_images :: "state \<Rightarrow> image list" where
  "active_images s = (if mongoConnected s then db_images s else images s)"

definition active_users :: "state \<Rightarrow> user list" where
  "active_users s = (if mongoConnected s then db_users s else users s)"

subsection \<open>A concrete instance\<close>

text \<open>Toy primitives, a configured environment, a request's surroundings and the state
  after a failed connection, on which the model is evaluated.\<close>

definition demo_prims :: prims where
  "demo_prims =
     \<lparr>bcrypt_hash = (\<lambda>p. CHR ''#'' # p),
      bcrypt_compare = (\<lambda>p h. h = CHR ''#'' # p),
      jwt_encode = (\<lambda>u k. if c_isAdmin u then ''A'' else ''U''),
      jwt_decode = (\<lambda>t k.
         if k \<noteq> ''s3cret'' then None
         else if t = ''A''
           then Some \<lparr>userId = NumId 1, c_email = ''admin@gmail.com'', c_isAdmin = True,
                      iat = 1, expiry = 86401\<rparr>
         else if t = ''U''
           then Some \<lparr>userId = NumId 2, c_email = ''user@gmail.com'', c_isAdmin = False,
                      iat = 1, expiry = 86401\<rparr>
         else None)\<rparr>"

definition demo_env :: env where
  "demo_env = \<lparr>JWT_SECRET = Some ''s3cret''\<rparr>"

definition demo_extern :: extern where
  "demo_extern =
     \<lparr>clock = 1000, date_now = 1001, new_date = 1001, db_error = None,
      cloud_upload = Inr (''https://res.example/a.png'', ''image-gallery/a''),
      unlink_error = None, cloud_destroy_error = None,
      fresh_oid = ''65f0c0ffee'', omit_undefined = True\<rparr>"

definition memory_state :: state where
  "memory_state = initializeInMemoryUsers demo_prims (initial [] [])"

text \<open>The state after a successful connection to an empty database.\<close>

definition persistent_state :: state where
  "persistent_state =
     initializeUsers demo_prims ''65f0c0ffe0'' ((initial [] [])\<lparr>mongoConnected := True\<rparr>)"

definition admin_header :: "string option" where
  "admin_header = Some ''Bearer A''"

text \<open>An upload event: a request to the upload route, whatever its outcome.\<close>

fun is_upload :: "event \<Rightarrow> bool" where
  "is_upload (Incoming (Upload h ttl m) x) = True"
| "is_upload e = False"

text \<open>Two uploads by the admin a second apart.\<close>

definition two_uploads :: "event list" where
  "two_uploads =
     [Incoming (Upload admin_header (Some ''Sunset'') (File ''uploads/1000-a.png''))
        (demo_extern\<lparr>date_now := 1001, new_date := 1001\<rparr>),
      Incoming (Upload admin_header None (File ''uploads/2000-b.png''))
        (demo_extern\<lparr>clock := 2000, date_now := 2002, new_date := 2002,
                      cloud_upload := Inr (''https://res.example/b.png'', ''image-gallery/b'')\<rparr>)]"

text \<open>Two uploads whose records are created within the same millisecond (the first
  handler reads the clock on both sides of a tick), followed by a listing.\<close>

definition tie_events :: "event list" where
  "tie_events =
     [Incoming (Upload admin_header (Some ''first'') (File ''uploads/1000-a.png''))
        (demo_extern\<lparr>date_now := 1000, new_date := 1001\<rparr>),
      Incoming (Upload admin_header (Some ''second'') (File ''uploads/1000-b.png''))
        (demo_extern\<lparr>date_now := 1001, new_date := 1001,
                      cloud_upload := Inr (''https://res.example/b.png'', ''image-gallery/b'')\<rparr>),
      Incoming GetImages demo_extern]"

text \<open>Two uploads whose handlers both read \<^verbatim>\<open>Date.now()\<close> as 1001.\<close>

definition same_ms_uploads :: "event list" where
  "same_ms_uploads =
     [Incoming (Upload admin_header (Some ''first'') (File ''uploads/1000-a.png''))
        (demo_extern\<lparr>date_now := 1001, new_date := 1001\<rparr>),
      Incoming (Upload admin_header (Some ''second'') (File ''uploads/1000-b.png''))
        (demo_extern\<lparr>date_now := 1001, new_date := 1001,
                      cloud_upload := Inr (''https://res.example/b.png'', ''image-gallery/b'')\<rparr>)]"

text \<open>The second of them, then the deletion of the identifier it was given, then a
  listing.\<close>

definition insert_then_delete :: "event list" where
  "insert_then_delete =
     [Incoming (Upload admin_header (Some ''second'') (File ''uploads/1000-b.png''))
        (demo_extern\<lparr>date_now := 1001, new_date := 1001,
                      cloud_upload := Inr (''https://res.example/b.png'', ''image-gallery/b'')\<rparr>),
      Incoming (Delete admin_header ''1001'') demo_extern,
      Incoming GetImages demo_extern]"

text \<open>An upload, then an update of its title by a request whose body has no title.\<close>

definition untitled_update :: "event list" where
  "untitled_update =
     [Incoming (Upload admin_header (Some ''Sunset'') (File ''uploads/1000-a.png''))
        (demo_extern\<lparr>date_now := 1001, new_date := 1001\<rparr>),
      Incoming (Update admin_header ''1001'' None) demo_extern]"

text \<open>A database that already holds the admin account and one image, and a process that
  handles a login and a listing before the connection is established and again after.\<close>

definition stored_admin :: user where
  "stored_admin =
     \<lparr>u_id = ObjectId ''65f0c0ffe0'', u_email = ''admin@gmail.com'',
      u_password = bcrypt_hash demo_prims ''admin123'', u_isAdmin = True\<rparr>"

definition stored_image :: image where
  "stored_image =
     \<lparr>image_id = ''65f0c0ffe1'', title = Some ''Dusk'', url = ''https://res.example/d.png'',
      cloudinaryId = ''image-gallery/d'', createdAt = 900\<rparr>"

definition early_requests :: "event list" where
  "early_requests =
     [Incoming (Login (Some ''admin@gmail.com'') (Some ''admin123'')) demo_extern,
      Incoming GetImages demo_extern,
      MongoConnected ''65f0c0ffe2'',
      Incoming (Login (Some ''admin@gmail.com'') (Some ''admin123'')) demo_extern,
      Incoming GetImages demo_extern]"

text \<open>The records that a list of responses returned.\<close>

definition doc_of :: "response \<Rightarrow> image list" where
  "doc_of r = (case body r of ImageDoc d \<Rightarrow> [d] | _ \<Rightarrow> [])"

text \<open>The in-memory state after the first upload of \<open>same_ms_uploads\<close>.\<close>

definition one_image_state :: state where
  "one_image_state = snd (run demo_prims demo_env memory_state (take 1 same_ms_uploads))"

text \<open>The process connected to that database.\<close>

definition connected_state :: state where
  "connected_state =
     snd (step demo_prims demo_env (initial [stored_admin] [stored_image])
            (MongoConnected ''65f0c0ffe2''))"

section \<open>Properties\<close>

text \<open>The definitions unfolded when the model is evaluated on a concrete run.\<close>

lemmas demo_eval =
  admin_header_def memory_state_def demo_prims_def demo_env_def demo_extern_def
  initializeInMemoryUsers_def initializeUsers_def initial_def
  upload_route_def update_route_def delete_route_def admin_gate_def authenticateToken_def
  isAdmin_def bearer_def jwt_verify_def jwt_sign_def or_default_def
  login_def findUser_def upload_handler_def update_handler_def delete_handler_def
  destroy_remote_def get_images_def newest_first_def splice1_def json_def Let_def
  toString.simps digit_def


subsection \<open>The auth gate\<close>

lemma demo_bearer:
  "bearer (Some ''Bearer A'') = Some ''A''"
  "bearer (Some ''Bearer U'') = Some ''U''"
  "bearer (Some ''Bearer zzz'') = Some ''zzz''"
  by (simp_all add: bearer_def)

text \<open>
  Claim C2. On each of the three admin routes (upload, update title, delete) the gate has
  three rejections and one way through. A request whose authorization header yields no
  token is answered 401 \<open>Access denied\<close>; a token that does not decode under the
  verification secret, or whose expiry has been reached, is answered 403
  \<open>Invalid token\<close>; a verified token whose admin flag is false is answered 403
  \<open>Admin access required\<close>; the gate lets a request through exactly when its token
  verifies and carries a true admin flag. A rejected request is answered by the gate's
  response, with the state as it was, on all three routes, and the three rejections are
  pairwise different responses.
\<close>

theorem admin_gate_outcomes:
  "(\<not> truthy (bearer h) \<longrightarrow>
      admin_gate P E (clock x) h = Inl (json 401 (Message ''Access denied'')))
   \<and> (\<forall>t. bearer h = Some t \<and> t \<noteq> [] \<and>
          (jwt_decode P t (or_default (JWT_SECRET E) ''your_jwt_secret'') = None \<or>
           (\<exists>u. jwt_decode P t (or_default (JWT_SECRET E) ''your_jwt_secret'') = Some u \<and>
                expiry u \<le> clock x div 1000)) \<longrightarrow>
          admin_gate P E (clock x) h = Inl (json 403 (Message ''Invalid token'')))
   \<and> (\<forall>t u. bearer h = Some t \<and> t \<noteq> [] \<and>
          jwt_verify P t (or_default (JWT_SECRET E) ''your_jwt_secret'') (clock x) = Some u \<and>
          \<not> c_isAdmin u \<longrightarrow>
          admin_gate P E (clock x) h = Inl (json 403 (Message ''Admin access required'')))
   \<and> (\<forall>u. admin_gate P E (clock x) h = Inr u \<longleftrightarrow>
          (\<exists>t. bearer h = Some t \<and> t \<noteq> [] \<and>
               jwt_verify P t (or_default (JWT_SECRET E) ''your_jwt_secret'') (clock x) = Some u \<and>
               c_isAdmin u))
   \<and> (\<forall>r. admin_gate P E (clock x) h = Inl r \<longrightarrow>
          upload_route P E s x h ttl m = (r, s) \<and>
          update_route P E s x h ident ttl = (r, s) \<and>
          delete_route P E s x h ident = (r, s))
   \<and> json 401 (Message ''Access denied'') \<noteq> json 403 (Message ''Invalid token'')
   \<and> json 401 (Message ''Access denied'') \<noteq> json 403 (Message ''Admin access required'')
   \<and> json 403 (Message ''Invalid token'') \<noteq> json 403 (Message ''Admin access required'')"
  by (auto simp: admin_gate_def authenticateToken_def isAdmin_def truthy_def jwt_verify_def
                 json_def upload_route_def update_route_def delete_route_def
           split: option.splits sum.splits if_splits)

theorem admin_gate_outcomes_witness:
  "upload_route demo_prims demo_env memory_state demo_extern None None NoFile
     = (json 401 (Message ''Access denied''), memory_state)
   \<and> update_route demo_prims demo_env memory_state demo_extern (Some ''Bearer zzz'') ''1001'' None
     = (json 403 (Message ''Invalid token''), memory_state)
   \<and> delete_route demo_prims demo_env memory_state demo_extern (Some ''Bearer U'') ''1001''
     = (json 403 (Message ''Admin access required''), memory_state)
   \<and> admin_gate demo_prims demo_env (clock demo_extern) (Some ''Bearer A'')
     = Inr \<lparr>userId = NumId 1, c_email = ''admin@gmail.com'', c_isAdmin = True,
            iat = 1, expiry = 86401\<rparr>"
proof -
  have a: "\<not> truthy (bearer None)"
    by (simp add: bearer_def truthy_def)
  have b: "jwt_decode demo_prims ''zzz'' (or_default (JWT_SECRET demo_env) ''your_jwt_secret'')
             = None"
    by (simp add: demo_prims_def demo_env_def or_default_def)
  have c: "jwt_verify demo_prims ''U'' (or_default (JWT_SECRET demo_env) ''your_jwt_secret'')
               (clock demo_extern)
             = Some \<lparr>userId = NumId 2, c_email = ''user@gmail.com'', c_isAdmin = False,
                     iat = 1, expiry = 86401\<rparr>"
    by (simp add: demo_prims_def demo_env_def or_default_def jwt_verify_def demo_extern_def)
  have d: "jwt_verify demo_prims ''A'' (or_default (JWT_SECRET demo_env) ''your_jwt_secret'')
               (clock demo_extern)
             = Some \<lparr>userId = NumId 1, c_email = ''admin@gmail.com'', c_isAdmin = True,
                     iat = 1, expiry = 86401\<rparr>"
    by (simp add: demo_prims_def demo_env_def or_default_def jwt_verify_def demo_extern_def)
  note g1 = admin_gate_outcomes
    [of None demo_prims demo_env demo_extern memory_state None NoFile "''1001''"]
  note g2 = admin_gate_outcomes
    [of "Some ''Bearer zzz''" demo_prims demo_env demo_extern memory_state None NoFile "''1001''"]
  note g3 = admin_gate_outcomes
    [of "Some ''Bearer U''" demo_prims demo_env demo_extern memory_state None NoFile "''1001''"]
  note g4 = admin_gate_outcomes
    [of "Some ''Bearer A''" demo_prims demo_env demo_extern memory_state None NoFile "''1001''"]
  have 1: "upload_route demo_prims demo_env memory_state demo_extern None None NoFile
     = (json 401 (Message ''Access denied''), memory_state)"
    using g1 a by blast
  have 2: "update_route demo_prims demo_env memory_state demo_extern (Some ''Bearer zzz'')
             ''1001'' None
     = (json 403 (Message ''Invalid token''), memory_state)"
    using g2 b demo_bearer(3) by blast
  have 3: "delete_route demo_prims demo_env memory_state demo_extern (Some ''Bearer U'') ''1001''
     = (json 403 (Message ''Admin access required''), memory_state)"
    using g3 c demo_bearer(2) by simp
  have 4: "admin_gate demo_prims demo_env (clock demo_extern) (Some ''Bearer A'')
     = Inr \<lparr>userId = NumId 1, c_email = ''admin@gmail.com'', c_isAdmin = True,
            iat = 1, expiry = 86401\<rparr>"
    using g4 d demo_bearer(1) by simp
  from 1 2 3 4 show ?thesis by blast
qed

subsection \<open>Login\<close>

lemma findUser_None_iff:
  "findUser s x em = Inr None \<longleftrightarrow>
     (if mongoConnected s then db_error x = None else True) \<and>
     list_all (\<lambda>u. Some (u_email u) \<noteq> em) (active_users s)"
  by (auto simp: findUser_def active_users_def find_None_iff list_all_iff split: option.splits)

lemma findUser_Some:
  "findUser s x em = Inr (Some u) \<Longrightarrow> u \<in> set (active_users s) \<and> em = Some (u_email u)"
  by (auto simp: findUser_def active_users_def find_Some_iff split: option.splits if_splits)

text \<open>
  Claim C3. Take two failed login attempts, in any two states and configurations: in the
  first the lookup finds no user with the email given; in the second it finds a user, and
  the password given does not match that user's stored hash. Both are answered by the
  same response, status 401 with the message \<open>Invalid credentials\<close>.
\<close>

theorem login_failures_indistinguishable:
  assumes "findUser s1 x1 e1 = Inr None"
    and "findUser s2 x2 e2 = Inr (Some u)"
    and "\<not> bcrypt_compare P p (u_password u)"
  shows "login P E1 s1 x1 e1 pw1 = login P E2 s2 x2 e2 (Some p)
         \<and> login P E1 s1 x1 e1 pw1 = json 401 (Message ''Invalid credentials'')"
  using assms by (simp add: login_def)

theorem login_failures_indistinguishable_witness:
  "login demo_prims demo_env memory_state demo_extern (Some ''nobody@gmail.com'') (Some ''admin123'')
     = login demo_prims demo_env memory_state demo_extern (Some ''admin@gmail.com'') (Some ''letmein'')
   \<and> login demo_prims demo_env memory_state demo_extern (Some ''nobody@gmail.com'') (Some ''admin123'')
     = json 401 (Message ''Invalid credentials'')"
proof -
  have a: "findUser memory_state demo_extern (Some ''nobody@gmail.com'') = Inr None"
    by (simp add: findUser_def memory_state_def initializeInMemoryUsers_def initial_def)
  have b: "findUser memory_state demo_extern (Some ''admin@gmail.com'')
             = Inr (Some \<lparr>u_id = NumId 1, u_email = ''admin@gmail.com'',
                          u_password = bcrypt_hash demo_prims ''admin123'', u_isAdmin = True\<rparr>)"
    by (simp add: findUser_def memory_state_def initializeInMemoryUsers_def initial_def)
  have c: "\<not> bcrypt_compare demo_prims ''letmein''
               (u_password \<lparr>u_id = NumId 1, u_email = ''admin@gmail.com'',
                          u_password = bcrypt_hash demo_prims ''admin123'', u_isAdmin = True\<rparr>)"
    by (simp add: demo_prims_def)
  show ?thesis
    by (rule login_failures_indistinguishable [OF a b c])
qed

lemma find_unique:
  assumes "u \<in> set xs" and "p u" and "\<And>v. v \<in> set xs \<Longrightarrow> p v \<Longrightarrow> v = u"
  shows "find p xs = Some u"
  using assms
proof (induction xs)
  case Nil
  then show ?case by simp
next
  case (Cons a xs)
  show ?case
  proof (cases "p a")
    case True
    with Cons.prems(3) [of a] have "a = u"
      by simp
    with True show ?thesis
      by simp
  next
    case False
    with Cons.prems(1,2) have "u \<in> set xs"
      by auto
    moreover have "\<And>v. v \<in> set xs \<Longrightarrow> p v \<Longrightarrow> v = u"
      using Cons.prems(3) by simp
    ultimately have "find p xs = Some u"
      using Cons.prems(2) by (intro Cons.IH)
    with False show ?thesis
      by simp
  qed
qed

text \<open>The lookup of lines 169-173 finds a stored record by its email, when emails are
  unique in the store and the store answers.\<close>

lemma findUser_stored:
  assumes "u \<in> set (active_users s)"
    and "distinct (map u_email (active_users s))"
    and "mongoConnected s \<longrightarrow> db_error x = None"
  shows "findUser s x (Some (u_email u)) = Inr (Some u)"
proof -
  have inj: "inj_on u_email (set (active_users s))"
    using assms(2) by (simp add: distinct_map)
  have uniq: "\<And>v. v \<in> set (active_users s) \<Longrightarrow> Some (u_email v) = Some (u_email u) \<Longrightarrow> v = u"
    using inj assms(1) by (simp add: inj_on_def)
  have "find (\<lambda>v. Some (u_email v) = Some (u_email u)) (active_users s) = Some u"
    using assms(1) _ uniq by (rule find_unique) simp
  with assms(3) show ?thesis
    by (simp add: findUser_def active_users_def split: if_splits)
qed

text \<open>
  Issuance with a configured secret. Let \<open>u\<close> be a record of the active credential
  store, in which emails are unique and which answers; let the password given match the
  stored hash, let the signing secret be present and not empty, and let the codec give
  back the claims it encoded under that secret. Then login with the email of \<open>u\<close>
  answers 200 with a token and with the stored admin flag; the token decodes, under the
  secret the auth middleware verifies with, to claims with the email, the admin flag and
  the identifier of \<open>u\<close>, issued at the second of the request and expiring 86400
  seconds (24 hours) later; verification accepts it at every instant before that expiry
  and rejects it from then on.
\<close>

lemma login_token_roundtrip:
  assumes stored: "u \<in> set (active_users s)"
      "distinct (map u_email (active_users s))"
      "mongoConnected s \<longrightarrow> db_error x = None"
    and pw: "bcrypt_compare P p (u_password u)"
    and secret: "JWT_SECRET E = Some k" "k \<noteq> []"
    and codec: "jwt_decode P
                  (jwt_encode P \<lparr>userId = u_id u, c_email = u_email u, c_isAdmin = u_isAdmin u,
                                 iat = clock x div 1000, expiry = clock x div 1000 + 86400\<rparr> k) k
                = Some \<lparr>userId = u_id u, c_email = u_email u, c_isAdmin = u_isAdmin u,
                        iat = clock x div 1000, expiry = clock x div 1000 + 86400\<rparr>"
  shows "\<exists>t cl. login P E s x (Some (u_email u)) (Some p) = json 200 (TokenBody t (u_isAdmin u))
           \<and> jwt_decode P t (or_default (JWT_SECRET E) ''your_jwt_secret'') = Some cl
           \<and> c_email cl = u_email u
           \<and> c_isAdmin cl = u_isAdmin u \<and> userId cl = u_id u
           \<and> iat cl = clock x div 1000 \<and> expiry cl = iat cl + 86400
           \<and> (\<forall>now. jwt_verify P t (or_default (JWT_SECRET E) ''your_jwt_secret'') now
                    = (if now div 1000 < clock x div 1000 + 86400 then Some cl else None))"
proof -
  let ?cl = "\<lparr>userId = u_id u, c_email = u_email u, c_isAdmin = u_isAdmin u,
              iat = clock x div 1000, expiry = clock x div 1000 + 86400\<rparr>"
  let ?t = "jwt_encode P ?cl k"
  have found: "findUser s x (Some (u_email u)) = Inr (Some u)"
    using stored by (rule findUser_stored)
  have sign: "jwt_sign P (u_id u, u_email u, u_isAdmin u) (JWT_SECRET E) (clock x) = Inr ?t"
    using secret by (simp add: jwt_sign_def)
  have resp: "login P E s x (Some (u_email u)) (Some p) = json 200 (TokenBody ?t (u_isAdmin u))"
    using found pw sign by (simp add: login_def)
  have key: "or_default (JWT_SECRET E) ''your_jwt_secret'' = k"
    using secret by (simp add: or_default_def)
  have ver: "\<forall>now. jwt_verify P ?t k now
                 = (if now div 1000 < clock x div 1000 + 86400 then Some ?cl else None)"
    using codec by (auto simp: jwt_verify_def)
  show ?thesis
    using resp key ver codec by (intro exI [of _ ?t] exI [of _ ?cl]) simp
qed

text \<open>
  Claim C4 at a failing input: the in-memory store holds the two seeded accounts and
  \<^verbatim>\<open>JWT_SECRET\<close> is unset. A login with the email and the matching password of a
  stored record is answered 500 \<open>Server error\<close> and returns no token, for the admin
  and for the user alike: signing (line 186) receives the undefined secret and throws,
  while verification (line 148) would use \<open>your_jwt_secret\<close>. With a secret configured
  the same two logins are answered 200 with a token and the stored admin flag.
\<close>

theorem valid_login_without_secret_fails:
  "login demo_prims \<lparr>JWT_SECRET = None\<rparr> memory_state demo_extern
      (Some ''user@gmail.com'') (Some ''password123'') = json 500 (Message ''Server error'')
   \<and> login demo_prims \<lparr>JWT_SECRET = None\<rparr> memory_state demo_extern
      (Some ''admin@gmail.com'') (Some ''admin123'') = json 500 (Message ''Server error'')
   \<and> or_default (JWT_SECRET \<lparr>JWT_SECRET = None\<rparr>) ''your_jwt_secret'' = ''your_jwt_secret''
   \<and> login demo_prims demo_env memory_state demo_extern
      (Some ''user@gmail.com'') (Some ''password123'') = json 200 (TokenBody ''U'' False)
   \<and> login demo_prims demo_env memory_state demo_extern
      (Some ''admin@gmail.com'') (Some ''admin123'') = json 200 (TokenBody ''A'' True)"
  by (simp add: demo_eval)

text \<open>
  Claim C10, as stated, fails: with the signing secret unset, a login attempt with a wrong
  password for a known email is answered 401 \<open>Invalid credentials\<close>, not 500.
\<close>

theorem unset_secret_wrong_password_counterexample:
  "login demo_prims \<lparr>JWT_SECRET = None\<rparr> memory_state demo_extern
      (Some ''admin@gmail.com'') (Some ''letmein'') = json 401 (Message ''Invalid credentials'')
   \<and> status (login demo_prims \<lparr>JWT_SECRET = None\<rparr> memory_state demo_extern
      (Some ''admin@gmail.com'') (Some ''letmein'')) \<noteq> 500"
  by (simp add: login_def findUser_def memory_state_def initializeInMemoryUsers_def initial_def
                demo_prims_def json_def)

text \<open>
  Claim C10, amended. With \<^verbatim>\<open>JWT_SECRET\<close> unset, verification and issuance do not use
  the same secret: the auth middleware verifies under the hard-coded \<open>your_jwt_secret\<close>
  (it behaves as if that string were configured), while signing receives the undefined
  value and throws. So every login attempt with valid credentials (the lookup finds the
  user and the password matches) is answered 500 \<open>Server error\<close>, and no login attempt
  at all is answered with a token; attempts with invalid credentials are rejected before
  the signing step.
\<close>

theorem unset_secret_breaks_login:
  assumes "JWT_SECRET E = None"
  shows "or_default (JWT_SECRET E) ''your_jwt_secret'' = ''your_jwt_secret''
       \<and> authenticateToken P E now h
           = authenticateToken P \<lparr>JWT_SECRET = Some ''your_jwt_secret''\<rparr> now h
       \<and> jwt_sign P payload (JWT_SECRET E) now = Inl ''secretOrPrivateKey must have a value''
       \<and> (\<forall>u p. findUser s x em = Inr (Some u) \<and> pw = Some p \<and>
                 bcrypt_compare P p (u_password u) \<longrightarrow>
             login P E s x em pw = json 500 (Message ''Server error''))
       \<and> (\<forall>t a. login P E s x em pw \<noteq> json 200 (TokenBody t a))"
  using assms
  by (auto simp: or_default_def authenticateToken_def jwt_sign_def login_def json_def
           split: option.splits sum.splits prod.splits)

theorem unset_secret_breaks_login_witness:
  "login demo_prims \<lparr>JWT_SECRET = None\<rparr> memory_state demo_extern
      (Some ''admin@gmail.com'') (Some ''admin123'') = json 500 (Message ''Server error'')
   \<and> authenticateToken demo_prims \<lparr>JWT_SECRET = None\<rparr> 1000 (Some ''Bearer A'')
      = authenticateToken demo_prims \<lparr>JWT_SECRET = Some ''your_jwt_secret''\<rparr> 1000
          (Some ''Bearer A'')"
proof -
  let ?u = "\<lparr>u_id = NumId 1, u_email = ''admin@gmail.com'',
             u_password = bcrypt_hash demo_prims ''admin123'', u_isAdmin = True\<rparr>"
  have a: "findUser memory_state demo_extern (Some ''admin@gmail.com'') = Inr (Some ?u)"
    by (simp add: findUser_def memory_state_def initializeInMemoryUsers_def initial_def)
  have b: "bcrypt_compare demo_prims ''admin123'' (u_password ?u)"
    by (simp add: demo_prims_def)
  have c: "JWT_SECRET \<lparr>JWT_SECRET = None\<rparr> = None"
    by simp
  show ?thesis
    using unset_secret_breaks_login
            [OF c, of demo_prims 1000 "Some ''Bearer A''" _ memory_state demo_extern
               "Some ''admin@gmail.com''" "Some ''admin123''"] a b
    by blast
qed

subsection \<open>Upload\<close>

lemma upload_handler_cases:
  "upload_handler s x ttl file = (r, s') \<Longrightarrow>
     (status r \<noteq> 200 \<and> images s' = images s \<and> db_images s' = db_images s \<and>
      mongoConnected s' = mongoConnected s)
   \<or> (status r = 200 \<and> mongoConnected s' = mongoConnected s \<and>
       (\<exists>su pid doc. cloud_upload x = Inr (su, pid) \<and> unlink_error x = None \<and>
          body r = ImageDoc doc \<and> url doc = su \<and> cloudinaryId doc = pid \<and>
          createdAt doc = new_date x \<and> title doc = Some (or_default ttl ''Untitled'') \<and>
          active_images s' = active_images s @ [doc]))"
  by (auto simp: upload_handler_def save_image_def json_def active_images_def Let_def
           split: option.splits sum.splits prod.splits if_splits)

lemma upload_route_cases:
  "upload_route P E s x h ttl m = (r, s') \<Longrightarrow>
     (status r \<noteq> 200 \<and> images s' = images s \<and> db_images s' = db_images s \<and>
      mongoConnected s' = mongoConnected s)
   \<or> (status r = 200 \<and> mongoConnected s' = mongoConnected s \<and>
       (\<exists>su pid doc. cloud_upload x = Inr (su, pid) \<and> unlink_error x = None \<and>
          body r = ImageDoc doc \<and> url doc = su \<and> cloudinaryId doc = pid \<and>
          createdAt doc = new_date x \<and> title doc = Some (or_default ttl ''Untitled'') \<and>
          active_images s' = active_images s @ [doc]))"
  unfolding upload_route_def
proof (cases "admin_gate P E (clock x) h")
  case (Inl resp)
  assume "(case admin_gate P E (clock x) h of
             Inl r \<Rightarrow> (r, s)
           | Inr u \<Rightarrow> (case m of
                         Rejected msg \<Rightarrow> (json 500 (DefaultErrorPage msg), s)
                       | NoFile \<Rightarrow> upload_handler s x ttl None
                       | File path \<Rightarrow> upload_handler s x ttl (Some path))) = (r, s')"
  with Inl show ?thesis
    by (auto simp: admin_gate_def authenticateToken_def isAdmin_def json_def
             split: option.splits sum.splits if_splits)
next
  case (Inr u)
  assume "(case admin_gate P E (clock x) h of
             Inl r \<Rightarrow> (r, s)
           | Inr u \<Rightarrow> (case m of
                         Rejected msg \<Rightarrow> (json 500 (DefaultErrorPage msg), s)
                       | NoFile \<Rightarrow> upload_handler s x ttl None
                       | File path \<Rightarrow> upload_handler s x ttl (Some path))) = (r, s')"
  with Inr show ?thesis
    by (cases m) (auto simp: json_def dest!: upload_handler_cases)
qed

text \<open>
  Claim C7. A record is created only when the remote upload and the insert both succeed.
  If the remote upload throws, the handler answers 500 and the whole state is as before:
  no temporary file has been removed and nothing has been inserted. If the remote upload
  and the removal of the temporary file succeed and the insert into the persistent store
  then fails, the handler answers 500 and neither store has a new record (the remote
  object and the removal of the file remain). On the whole route, a response other than
  200 leaves both stores as they were, and a response 200 means that the remote upload
  succeeded and that exactly the returned record was appended to the active store.
\<close>

theorem upload_creates_record_only_on_success:
  "(\<forall>m. cloud_upload x = Inl m \<longrightarrow>
        upload_handler s x ttl (Some path) = (json 500 (Failure ''Error uploading image'' m), s))
   \<and> (\<forall>su pid m. mongoConnected s \<and> cloud_upload x = Inr (su, pid) \<and> unlink_error x = None \<and>
          db_error x = Some m \<longrightarrow>
          status (fst (upload_handler s x ttl (Some path))) = 500 \<and>
          db_images (snd (upload_handler s x ttl (Some path))) = db_images s \<and>
          images (snd (upload_handler s x ttl (Some path))) = images s \<and>
          effects (snd (upload_handler s x ttl (Some path)))
            = effects s @ [CloudUploaded pid, Unlinked path])
   \<and> (status (fst (upload_route P E s x h ttl mu)) \<noteq> 200 \<longrightarrow>
          images (snd (upload_route P E s x h ttl mu)) = images s \<and>
          db_images (snd (upload_route P E s x h ttl mu)) = db_images s)
   \<and> (status (fst (upload_route P E s x h ttl mu)) = 200 \<longrightarrow>
          (\<exists>su pid doc. cloud_upload x = Inr (su, pid) \<and> unlink_error x = None \<and>
             body (fst (upload_route P E s x h ttl mu)) = ImageDoc doc \<and>
             url doc = su \<and> cloudinaryId doc = pid \<and>
             active_images (snd (upload_route P E s x h ttl mu)) = active_images s @ [doc]))"
proof (intro conjI)
  show "\<forall>m. cloud_upload x = Inl m \<longrightarrow>
        upload_handler s x ttl (Some path) = (json 500 (Failure ''Error uploading image'' m), s)"
    by (simp add: upload_handler_def)
  show "\<forall>su pid m. mongoConnected s \<and> cloud_upload x = Inr (su, pid) \<and> unlink_error x = None \<and>
          db_error x = Some m \<longrightarrow>
          status (fst (upload_handler s x ttl (Some path))) = 500 \<and>
          db_images (snd (upload_handler s x ttl (Some path))) = db_images s \<and>
          images (snd (upload_handler s x ttl (Some path))) = images s \<and>
          effects (snd (upload_handler s x ttl (Some path)))
            = effects s @ [CloudUploaded pid, Unlinked path]"
    by (auto simp: upload_handler_def save_image_def json_def Let_def)
  obtain r s' where rs: "upload_route P E s x h ttl mu = (r, s')"
    by (cases "upload_route P E s x h ttl mu")
  from upload_route_cases [OF rs]
  show "status (fst (upload_route P E s x h ttl mu)) \<noteq> 200 \<longrightarrow>
          images (snd (upload_route P E s x h ttl mu)) = images s \<and>
          db_images (snd (upload_route P E s x h ttl mu)) = db_images s"
    by (auto simp: rs)
  from upload_route_cases [OF rs]
  show "status (fst (upload_route P E s x h ttl mu)) = 200 \<longrightarrow>
          (\<exists>su pid doc. cloud_upload x = Inr (su, pid) \<and> unlink_error x = None \<and>
             body (fst (upload_route P E s x h ttl mu)) = ImageDoc doc \<and>
             url doc = su \<and> cloudinaryId doc = pid \<and>
             active_images (snd (upload_route P E s x h ttl mu)) = active_images s @ [doc])"
    by (auto simp: rs)
qed

theorem upload_creates_record_only_on_success_witness:
  "upload_handler memory_state (demo_extern\<lparr>cloud_upload := Inl ''timeout''\<rparr>)
       (Some ''Sunset'') (Some ''uploads/1000-a.png'')
     = (json 500 (Failure ''Error uploading image'' ''timeout''), memory_state)
   \<and> db_images (snd (upload_handler persistent_state (demo_extern\<lparr>db_error := Some ''down''\<rparr>)
        (Some ''Sunset'') (Some ''uploads/1000-a.png''))) = db_images persistent_state
   \<and> effects (snd (upload_handler persistent_state (demo_extern\<lparr>db_error := Some ''down''\<rparr>)
        (Some ''Sunset'') (Some ''uploads/1000-a.png'')))
     = effects persistent_state
         @ [CloudUploaded ''image-gallery/a'', Unlinked ''uploads/1000-a.png'']
   \<and> images (snd (upload_route demo_prims demo_env memory_state demo_extern None
        (Some ''Sunset'') (File ''uploads/1000-a.png''))) = images memory_state
   \<and> (\<exists>doc. active_images (snd (upload_route demo_prims demo_env memory_state demo_extern
        admin_header (Some ''Sunset'') (File ''uploads/1000-a.png'')))
        = active_images memory_state @ [doc] \<and> url doc = ''https://res.example/a.png'')"
proof -
  have a: "cloud_upload (demo_extern\<lparr>cloud_upload := Inl ''timeout''\<rparr>) = Inl ''timeout''"
    by simp
  have b: "mongoConnected persistent_state
           \<and> cloud_upload (demo_extern\<lparr>db_error := Some ''down''\<rparr>)
               = Inr (''https://res.example/a.png'', ''image-gallery/a'')
           \<and> unlink_error (demo_extern\<lparr>db_error := Some ''down''\<rparr>) = None
           \<and> db_error (demo_extern\<lparr>db_error := Some ''down''\<rparr>) = Some ''down''"
    by (simp add: persistent_state_def initializeUsers_def initial_def demo_extern_def)
  have c: "status (fst (upload_route demo_prims demo_env memory_state demo_extern None
             (Some ''Sunset'') (File ''uploads/1000-a.png''))) \<noteq> 200"
    by (simp add: upload_route_def admin_gate_def authenticateToken_def bearer_def json_def)
  have d: "status (fst (upload_route demo_prims demo_env memory_state demo_extern admin_header
             (Some ''Sunset'') (File ''uploads/1000-a.png''))) = 200"
    by (simp add: upload_route_def admin_gate_def authenticateToken_def isAdmin_def bearer_def
          jwt_verify_def or_default_def admin_header_def demo_prims_def demo_env_def
          demo_extern_def memory_state_def initializeInMemoryUsers_def initial_def
          upload_handler_def json_def Let_def)
  note t1 = upload_creates_record_only_on_success
    [of "demo_extern\<lparr>cloud_upload := Inl ''timeout''\<rparr>" memory_state "Some ''Sunset''"
        "''uploads/1000-a.png''" demo_prims demo_env None NoFile]
  note t2 = upload_creates_record_only_on_success
    [of "demo_extern\<lparr>db_error := Some ''down''\<rparr>" persistent_state "Some ''Sunset''"
        "''uploads/1000-a.png''" demo_prims demo_env None NoFile]
  note t3 = upload_creates_record_only_on_success
    [of demo_extern memory_state "Some ''Sunset''" "''uploads/1000-a.png''"
        demo_prims demo_env None "File ''uploads/1000-a.png''"]
  note t4 = upload_creates_record_only_on_success
    [of demo_extern memory_state "Some ''Sunset''" "''uploads/1000-a.png''"
        demo_prims demo_env admin_header "File ''uploads/1000-a.png''"]
  have 1: "upload_handler memory_state (demo_extern\<lparr>cloud_upload := Inl ''timeout''\<rparr>)
       (Some ''Sunset'') (Some ''uploads/1000-a.png'')
     = (json 500 (Failure ''Error uploading image'' ''timeout''), memory_state)"
    using t1 a by blast
  have 2: "db_images (snd (upload_handler persistent_state (demo_extern\<lparr>db_error := Some ''down''\<rparr>)
        (Some ''Sunset'') (Some ''uploads/1000-a.png''))) = db_images persistent_state
   \<and> effects (snd (upload_handler persistent_state (demo_extern\<lparr>db_error := Some ''down''\<rparr>)
        (Some ''Sunset'') (Some ''uploads/1000-a.png'')))
     = effects persistent_state
         @ [CloudUploaded ''image-gallery/a'', Unlinked ''uploads/1000-a.png'']"
    using t2 b by blast
  have 3: "images (snd (upload_route demo_prims demo_env memory_state demo_extern None
        (Some ''Sunset'') (File ''uploads/1000-a.png''))) = images memory_state"
    using t3 c by blast
  have e: "cloud_upload demo_extern = Inr (''https://res.example/a.png'', ''image-gallery/a'')"
    by (simp add: demo_extern_def)
  have 4: "\<exists>doc. active_images (snd (upload_route demo_prims demo_env memory_state demo_extern
        admin_header (Some ''Sunset'') (File ''uploads/1000-a.png'')))
        = active_images memory_state @ [doc] \<and> url doc = ''https://res.example/a.png''"
    using t4 d e by auto
  from 1 2 3 4 show ?thesis by blast
qed

subsection \<open>Listing\<close>

lemma newest_first_sorted: "sorted_wrt (\<lambda>a b. createdAt b \<le> createdAt a) (newest_first xs)"
proof -
  have "sorted (map (\<lambda>i. - int (createdAt i)) (newest_first xs))"
    unfolding newest_first_def by (rule sorted_sort_key)
  then show ?thesis
    by (simp add: sorted_map)
qed

lemma mset_newest_first: "mset (newest_first xs) = mset xs"
  by (simp add: newest_first_def)

lemma newest_first_snoc:
  "\<forall>i\<in>set xs. createdAt i < createdAt d \<Longrightarrow> newest_first (xs @ [d]) = d # newest_first xs"
  by (induction xs) (auto simp: newest_first_def)

lemma get_images_ok:
  assumes "mongoConnected s \<longrightarrow> db_error x = None"
  shows "fst (get_images s x) = json 200 (ImageList (newest_first (active_images s)))"
    and "mset (active_images (snd (get_images s x))) = mset (active_images s)"
  using assms by (auto simp: get_images_def active_images_def Let_def mset_newest_first)

lemma run_uploads_append:
  "list_all is_upload evs \<Longrightarrow> run P E s evs = (rs, s') \<Longrightarrow>
   list_all (\<lambda>r. status r = 200) rs \<Longrightarrow>
     active_images s' = active_images s @ concat (map doc_of rs) \<and>
     length (concat (map doc_of rs)) = length evs"
proof (induction evs arbitrary: s rs s')
  case Nil
  then show ?case by simp
next
  case (Cons e evs)
  from Cons.prems(1) obtain h ttl m x where e: "e = Incoming (Upload h ttl m) x"
    by (cases e rule: is_upload.cases) auto
  obtain r s1 where up: "upload_route P E s x h ttl m = (r, s1)"
    by (cases "upload_route P E s x h ttl m")
  obtain rs1 s2 where rest: "run P E s1 evs = (rs1, s2)"
    by (cases "run P E s1 evs")
  from Cons.prems(2) e up rest have eq: "rs = r # rs1" "s' = s2"
    by auto
  with Cons.prems(3) have ok: "status r = 200" "list_all (\<lambda>r. status r = 200) rs1"
    by auto
  from upload_route_cases [OF up] ok(1)
  have one: "active_images s1 = active_images s @ doc_of r \<and> length (doc_of r) = 1"
    by (auto simp: doc_of_def)
  from Cons.prems(1) have "list_all is_upload evs"
    by simp
  from Cons.IH [OF this rest ok(2)]
  have "active_images s2 = active_images s1 @ concat (map doc_of rs1) \<and>
        length (concat (map doc_of rs1)) = length evs" .
  with one eq show ?case by simp
qed

text \<open>
  Claim C5, as stated, fails in two ways. Two records created within the same
  millisecond in the in-memory store are listed with the most recently inserted one
  last. And in persistent mode, when the database call throws, the listing of a store
  that holds a record is answered 500, with no record.
\<close>

theorem listing_tie_counterexample:
  "fst (run demo_prims demo_env memory_state tie_events) =
     [json 200 (ImageDoc \<lparr>image_id = ''1000'', title = Some ''first'',
                          url = ''https://res.example/a.png'',
                          cloudinaryId = ''image-gallery/a'', createdAt = 1001\<rparr>),
      json 200 (ImageDoc \<lparr>image_id = ''1001'', title = Some ''second'',
                          url = ''https://res.example/b.png'',
                          cloudinaryId = ''image-gallery/b'', createdAt = 1001\<rparr>),
      json 200 (ImageList
         [\<lparr>image_id = ''1000'', title = Some ''first'', url = ''https://res.example/a.png'',
           cloudinaryId = ''image-gallery/a'', createdAt = 1001\<rparr>,
          \<lparr>image_id = ''1001'', title = Some ''second'', url = ''https://res.example/b.png'',
           cloudinaryId = ''image-gallery/b'', createdAt = 1001\<rparr>])]
   \<and> active_images connected_state = [stored_image]
   \<and> fst (get_images connected_state (demo_extern\<lparr>db_error := Some ''connection lost''\<rparr>))
       = json 500 (Failure ''Error fetching images'' ''connection lost'')"
  by (simp add: tie_events_def connected_state_def stored_admin_def stored_image_def
        active_images_def demo_eval)

text \<open>
  Claim C5, amended. For every state of the active image store, when the store answers
  the query (the in-memory store always does; the persistent one unless the database
  call throws), listing returns every record of the store exactly once, ordered by
  \<open>createdAt\<close> descending. After \<open>N\<close> successful uploads in sequence the listing
  consists of the records that were in the store before and the \<open>N\<close> records the
  uploads returned. The most recently inserted record is listed first when its
  \<open>createdAt\<close> is strictly later than that of every other record.
\<close>

theorem listing_newest_first:
  assumes ok: "mongoConnected s \<longrightarrow> db_error x = None"
  shows "\<exists>l. fst (get_images s x) = json 200 (ImageList l)
     \<and> mset l = mset (active_images s)
     \<and> sorted_wrt (\<lambda>a b. createdAt b \<le> createdAt a) l
     \<and> mset (active_images (snd (get_images s x))) = mset (active_images s)
     \<and> (\<forall>evs rs s0. list_all is_upload evs \<and> run P E s0 evs = (rs, s) \<and>
            list_all (\<lambda>r. status r = 200) rs \<longrightarrow>
            mset l = mset (active_images s0) + mset (concat (map doc_of rs)) \<and>
            length l = length (active_images s0) + length evs)
     \<and> (\<forall>s0 x0 h ttl m r doc. upload_route P E s0 x0 h ttl m = (r, s) \<and> status r = 200 \<and>
            body r = ImageDoc doc \<and> (\<forall>i\<in>set (active_images s0). createdAt i < createdAt doc) \<longrightarrow>
            (\<exists>rest. l = doc # rest \<and> mset rest = mset (active_images s0)))"
proof -
  let ?l = "newest_first (active_images s)"
  have 1: "fst (get_images s x) = json 200 (ImageList ?l)"
    using ok by (rule get_images_ok(1))
  have 2: "mset ?l = mset (active_images s)"
    by (rule mset_newest_first)
  have 3: "sorted_wrt (\<lambda>a b. createdAt b \<le> createdAt a) ?l"
    by (rule newest_first_sorted)
  have 4: "mset (active_images (snd (get_images s x))) = mset (active_images s)"
    using ok by (rule get_images_ok(2))
  have 5: "\<forall>evs rs s0. list_all is_upload evs \<and> run P E s0 evs = (rs, s) \<and>
            list_all (\<lambda>r. status r = 200) rs \<longrightarrow>
            mset ?l = mset (active_images s0) + mset (concat (map doc_of rs)) \<and>
            length ?l = length (active_images s0) + length evs"
  proof (intro allI impI)
    fix evs rs s0
    assume h: "list_all is_upload evs \<and> run P E s0 evs = (rs, s) \<and>
               list_all (\<lambda>r. status r = 200) rs"
    then have app: "active_images s = active_images s0 @ concat (map doc_of rs)"
      and len: "length (concat (map doc_of rs)) = length evs"
      using run_uploads_append [of evs P E s0 rs s] by simp_all
    have "length ?l = length (active_images s)"
      using 2 by (metis size_mset)
    then show "mset ?l = mset (active_images s0) + mset (concat (map doc_of rs)) \<and>
            length ?l = length (active_images s0) + length evs"
      using 2 app len by simp
  qed
  have 6: "\<forall>s0 x0 h ttl m r doc. upload_route P E s0 x0 h ttl m = (r, s) \<and> status r = 200 \<and>
            body r = ImageDoc doc \<and> (\<forall>i\<in>set (active_images s0). createdAt i < createdAt doc) \<longrightarrow>
            (\<exists>rest. ?l = doc # rest \<and> mset rest = mset (active_images s0))"
  proof (intro allI impI)
    fix s0 x0 h ttl m r doc
    assume h: "upload_route P E s0 x0 h ttl m = (r, s) \<and> status r = 200 \<and>
            body r = ImageDoc doc \<and> (\<forall>i\<in>set (active_images s0). createdAt i < createdAt doc)"
    then have "active_images s = active_images s0 @ [doc]"
      using upload_route_cases [of P E s0 x0 h ttl m r s] by auto
    with h have "?l = doc # newest_first (active_images s0)"
      by (simp add: newest_first_snoc)
    then show "\<exists>rest. ?l = doc # rest \<and> mset rest = mset (active_images s0)"
      by (simp add: mset_newest_first)
  qed
  from 1 2 3 4 5 6 show ?thesis
    by blast
qed

theorem listing_newest_first_witness:
  "\<exists>l. fst (get_images (snd (run demo_prims demo_env memory_state two_uploads)) demo_extern)
         = json 200 (ImageList l)
     \<and> mset l = mset (active_images (snd (run demo_prims demo_env memory_state two_uploads)))
     \<and> sorted_wrt (\<lambda>a b. createdAt b \<le> createdAt a) l
     \<and> length l = 2
     \<and> title (hd l) = Some ''Untitled''"
proof -
  let ?a = "\<lparr>image_id = ''1001'', title = Some ''Sunset'', url = ''https://res.example/a.png'',
             cloudinaryId = ''image-gallery/a'', createdAt = 1001\<rparr>"
  let ?b = "\<lparr>image_id = ''2002'', title = Some ''Untitled'', url = ''https://res.example/b.png'',
             cloudinaryId = ''image-gallery/b'', createdAt = 2002\<rparr>"
  let ?x2 = "demo_extern\<lparr>clock := 2000, date_now := 2002, new_date := 2002,
                         cloud_upload := Inr (''https://res.example/b.png'', ''image-gallery/b'')\<rparr>"
  let ?s1 = "snd (run demo_prims demo_env memory_state (take 1 two_uploads))"
  let ?s = "snd (run demo_prims demo_env memory_state two_uploads)"
  have mode: "mongoConnected ?s \<longrightarrow> db_error demo_extern = None"
    by (simp add: demo_extern_def)
  have up: "list_all is_upload two_uploads"
    by (simp add: two_uploads_def admin_header_def)
  have run2: "run demo_prims demo_env memory_state two_uploads
                = ([json 200 (ImageDoc ?a), json 200 (ImageDoc ?b)], ?s)"
    by (simp add: two_uploads_def demo_eval)
  have ok: "list_all (\<lambda>r. status r = 200) [json 200 (ImageDoc ?a), json 200 (ImageDoc ?b)]"
    by (simp add: json_def)
  have before: "active_images memory_state = []"
    by (simp add: active_images_def demo_eval)
  have s1: "active_images ?s1 = [?a]"
    by (simp add: two_uploads_def active_images_def demo_eval)
  have last: "upload_route demo_prims demo_env ?s1 ?x2 admin_header None (File ''uploads/2000-b.png'')
                = (json 200 (ImageDoc ?b), ?s)"
    by (simp add: two_uploads_def demo_eval)
  have fresh: "\<forall>i\<in>set (active_images ?s1). createdAt i < createdAt ?b"
    unfolding s1 by simp
  from listing_newest_first [OF mode, of demo_prims demo_env] obtain l where
    l: "fst (get_images ?s demo_extern) = json 200 (ImageList l)"
       "mset l = mset (active_images ?s)"
       "sorted_wrt (\<lambda>a b. createdAt b \<le> createdAt a) l"
       "\<forall>evs rs s0. list_all is_upload evs \<and> run demo_prims demo_env s0 evs = (rs, ?s) \<and>
            list_all (\<lambda>r. status r = 200) rs \<longrightarrow>
            mset l = mset (active_images s0) + mset (concat (map doc_of rs)) \<and>
            length l = length (active_images s0) + length evs"
       "\<forall>s0 x0 h ttl m r doc. upload_route demo_prims demo_env s0 x0 h ttl m = (r, ?s) \<and>
            status r = 200 \<and> body r = ImageDoc doc \<and>
            (\<forall>i\<in>set (active_images s0). createdAt i < createdAt doc) \<longrightarrow>
            (\<exists>rest. l = doc # rest \<and> mset rest = mset (active_images s0))"
    by blast
  from l(4) up run2 ok before have len: "length l = 2"
    by (fastforce simp: two_uploads_def)
  have "status (json 200 (ImageDoc ?b)) = 200 \<and> body (json 200 (ImageDoc ?b)) = ImageDoc ?b"
    by (simp add: json_def)
  with l(5) last fresh have "\<exists>rest. l = ?b # rest \<and> mset rest = mset (active_images ?s1)"
    by blast
  then have "title (hd l) = Some ''Untitled''"
    by auto
  with l(1-3) len show ?thesis
    by (intro exI [of _ l]) simp
qed

subsection \<open>Identifiers\<close>

lemma findIndex_append_fresh:
  "\<forall>i\<in>set xs. \<not> p i \<Longrightarrow> p d \<Longrightarrow> findIndex p (xs @ [d]) = Some (length xs)"
  by (induction xs) auto

lemma splice1_last: "splice1 (length xs) (xs @ [d]) = xs"
  by (simp add: splice1_def)

lemma destroy_remote_stores:
  "destroy_remote s x img = Inr s1 \<Longrightarrow>
     images s1 = images s \<and> db_images s1 = db_images s \<and> mongoConnected s1 = mongoConnected s"
  by (auto simp: destroy_remote_def split: if_splits option.splits)

text \<open>The round trip with a fresh identifier: when the identifier given to the new
  record is not already in the store, a successful upload followed by a successful
  deletion of that identifier gives back the store as it was.\<close>

lemma insert_delete_fresh:
  assumes up: "upload_handler s x ttl file = (r, s1)" "status r = 200" "body r = ImageDoc doc"
    and fresh: "\<forall>i\<in>set (active_images s). image_id i \<noteq> image_id doc"
    and del: "delete_handler s1 x' (image_id doc) = (r', s2)" "status r' = 200"
  shows "active_images s2 = active_images s"
proof -
  from upload_handler_cases [OF up(1)] up(2,3)
  have app: "active_images s1 = active_images s @ [doc]"
    and mode: "mongoConnected s1 = mongoConnected s"
    by auto
  have idx: "findIndex (\<lambda>img. image_id img = image_id doc) (active_images s1)
               = Some (length (active_images s))"
    unfolding app using fresh by (intro findIndex_append_fresh) auto
  show ?thesis
  proof (cases "mongoConnected s")
    case True
    with mode app idx have a: "db_images s1 = db_images s @ [doc]"
      and i: "findIndex (\<lambda>img. image_id img = image_id doc) (db_images s1)
                = Some (length (db_images s))"
      by (simp_all add: active_images_def)
    from del True mode i obtain s' where
      d: "destroy_remote s1 x' (db_images s1 ! length (db_images s)) = Inr s'"
         "s2 = s'\<lparr>db_images := splice1 (length (db_images s)) (db_images s')\<rparr>"
      by (auto simp: delete_handler_def json_def split: option.splits sum.splits)
    from destroy_remote_stores [OF d(1)] d(2) a True mode show ?thesis
      by (simp add: active_images_def splice1_last)
  next
    case False
    with mode app idx have a: "images s1 = images s @ [doc]"
      and i: "findIndex (\<lambda>img. image_id img = image_id doc) (images s1)
                = Some (length (images s))"
      by (simp_all add: active_images_def)
    from del False mode i obtain s' where
      d: "destroy_remote s1 x' (images s1 ! length (images s)) = Inr s'"
         "s2 = s'\<lparr>images := splice1 (length (images s)) (images s')\<rparr>"
      by (auto simp: delete_handler_def json_def split: option.splits sum.splits)
    from destroy_remote_stores [OF d(1)] d(2) a False mode show ?thesis
      by (simp add: active_images_def splice1_last)
  qed
qed

text \<open>
  Claim C8 at a failing input: in the in-memory backend two successful uploads that read
  the same millisecond from \<^verbatim>\<open>Date.now()\<close> create two different records with the same
  identifier.
\<close>

theorem same_ms_ids_collide:
  "map status (fst (run demo_prims demo_env memory_state same_ms_uploads)) = [200, 200]
   \<and> map image_id (images (snd (run demo_prims demo_env memory_state same_ms_uploads)))
       = [''1001'', ''1001'']
   \<and> map title (images (snd (run demo_prims demo_env memory_state same_ms_uploads)))
       = [Some ''first'', Some ''second'']"
  by (simp add: same_ms_uploads_def demo_eval)

text \<open>
  Claim C6 at a failing input: the store holds one record, created in millisecond 1001.
  An upload in the same millisecond is given the same identifier; deleting that
  identifier removes the older record, and the listing still shows the identifier, now
  on the record just inserted. The number of records is back to one.
\<close>

theorem insert_delete_keeps_id:
  "images one_image_state =
     [\<lparr>image_id = ''1001'', title = Some ''first'', url = ''https://res.example/a.png'',
       cloudinaryId = ''image-gallery/a'', createdAt = 1001\<rparr>]
   \<and> fst (run demo_prims demo_env one_image_state insert_then_delete) =
     [json 200 (ImageDoc \<lparr>image_id = ''1001'', title = Some ''second'',
                          url = ''https://res.example/b.png'',
                          cloudinaryId = ''image-gallery/b'', createdAt = 1001\<rparr>),
      json 200 (Message ''Image deleted successfully''),
      json 200 (ImageList
         [\<lparr>image_id = ''1001'', title = Some ''second'', url = ''https://res.example/b.png'',
           cloudinaryId = ''image-gallery/b'', createdAt = 1001\<rparr>])]"
  by (simp add: one_image_state_def same_ms_uploads_def insert_then_delete_def demo_eval)

subsection \<open>Titles\<close>

text \<open>The title an upload stores is never empty, and it is \<open>Untitled\<close> when the
  request has no title or an empty one.\<close>

lemma uploaded_title:
  "or_default ttl ''Untitled'' \<noteq> [] \<and> (\<not> truthy ttl \<longrightarrow> or_default ttl ''Untitled'' = ''Untitled'')"
  by (auto simp: or_default_def truthy_def split: option.splits)

text \<open>
  Claim C9 at a failing input: in the in-memory backend, after an upload titled
  \<open>Sunset\<close>, an update request by the admin whose body has no title is answered 200 and
  leaves the record without a title.
\<close>

theorem update_without_title_erases_it:
  "map status (fst (run demo_prims demo_env memory_state untitled_update)) = [200, 200]
   \<and> map title (images (snd (run demo_prims demo_env memory_state untitled_update))) = [None]
   \<and> map image_id (images (snd (run demo_prims demo_env memory_state untitled_update)))
       = [''1001'']"
  by (simp add: untitled_update_def demo_eval)

subsection \<open>The storage mode\<close>

lemma handle_keeps_mode: "mongoConnected (snd (handle P E s x req)) = mongoConnected s"
proof (cases req)
  case (Login em pw)
  then show ?thesis by simp
next
  case GetImages
  then show ?thesis
    by (simp add: get_images_def Let_def split: option.splits)
next
  case (Upload h ttl m)
  obtain r s' where "upload_route P E s x h ttl m = (r, s')"
    by (cases "upload_route P E s x h ttl m")
  with Upload upload_route_cases [of P E s x h ttl m r s'] show ?thesis
    by auto
next
  case (Update h ident ttl)
  then show ?thesis
    by (simp add: update_route_def update_handler_def Let_def split: sum.splits option.splits)
next
  case (Delete h ident)
  then show ?thesis
    by (auto simp: delete_route_def delete_handler_def destroy_remote_def
             split: sum.splits option.splits if_splits)
qed

lemma step_keeps_connected: "mongoConnected s \<Longrightarrow> mongoConnected (snd (step P E s e))"
proof (cases e)
  case (MongoConnected oid)
  then show ?thesis
    by (simp add: initializeUsers_def split: option.splits)
next
  case MongoConnectionError
  assume "mongoConnected s"
  with MongoConnectionError show ?thesis
    by (simp add: initializeInMemoryUsers_def)
next
  case (Incoming req x)
  assume c: "mongoConnected s"
  obtain r s' where h: "handle P E s x req = (r, s')"
    by (cases "handle P E s x req")
  with handle_keeps_mode [of P E s x req] c have "mongoConnected s'"
    by simp
  with Incoming h show ?thesis
    by simp
qed

lemma run_keeps_connected: "mongoConnected s \<Longrightarrow> mongoConnected (snd (run P E s es))"
proof (induction es arbitrary: s)
  case Nil
  then show ?case by simp
next
  case (Cons e es)
  obtain r s1 where st: "step P E s e = (r, s1)"
    by (cases "step P E s e")
  obtain rs s2 where rn: "run P E s1 es = (rs, s2)"
    by (cases "run P E s1 es")
  from Cons.prems step_keeps_connected [of s P E e] st have "mongoConnected s1"
    by simp
  from Cons.IH [OF this] rn have "mongoConnected s2"
    by simp
  with st rn show ?case
    by simp
qed

text \<open>
  Claim C1 at a failing input: the database holds the admin account and one image. The
  process handles a login and a listing before the connection is established: they are
  served from the in-memory arrays (no user, no image). The connection then succeeds, and
  the same two requests are served from the database.
\<close>

theorem requests_before_connection_use_memory:
  "fst (run demo_prims demo_env (initial [stored_admin] [stored_image]) early_requests) =
     [json 401 (Message ''Invalid credentials''),
      json 200 (ImageList []),
      json 200 (TokenBody ''A'' True),
      json 200 (ImageList [stored_image])]"
  by (simp add: early_requests_def stored_admin_def stored_image_def demo_eval)

end
